theory Spec2Isabelle
  imports Main
begin

section \<open>A safe asynchronous state controller: \<open>useSafeDispatch\<close>, \<open>asyncReducer\<close>, \<open>useAsync\<close>\<close>

text \<open>
  The hooks of \<^verbatim>\<open>02.extra-3.js\<close> are embedded as functions on an explicit world.
  The mutable parts of one hook instance (the ref cell \<^verbatim>\<open>mountedRef.current\<close>, the
  reducer state kept by \<^verbatim>\<open>React.useReducer\<close>, the callbacks handed to
  \<^verbatim>\<open>promise.then\<close>) are fields of a record that every operation takes and returns.
  A JavaScript \<^verbatim>\<open>throw\<close> is the left injection of a sum.
\<close>

subsection \<open>Values, actions and states\<close>

text \<open>
  The payload of an operation is opaque to the hooks: \<open>'v\<close> stands for every value
  that is neither \<^verbatim>\<open>undefined\<close> nor \<^verbatim>\<open>null\<close>. Reading a property that an object
  does not have yields \<^verbatim>\<open>undefined\<close>.
\<close>

datatype 'v jsval = Undefined | Null | Value 'v

text \<open>
  A thrown error: \<^verbatim>\<open>new Error(message)\<close>, or the \<^verbatim>\<open>TypeError\<close> the engine raises
  when a value that is not a function is called.
\<close>

datatype js_error = Error string | TypeError string

text \<open>
  The optional argument of \<^verbatim>\<open>useAsync\<close>. A field is \<open>None\<close> when the object passed
  by the caller does not have that property.
\<close>

record 'v initialState =
  status :: "string option"
  data :: "'v jsval option"
  error :: "'v jsval option"

text \<open>
  An action object: \<^verbatim>\<open>{type: 'pending'}\<close>, \<^verbatim>\<open>{type: 'resolved', data}\<close>,
  \<^verbatim>\<open>{type: 'rejected', error}\<close>, or an object with any other \<^verbatim>\<open>type\<close>.
\<close>

record 'v action =
  type :: string
  data :: "'v jsval"
  error :: "'v jsval"

text \<open>The reducer state \<^verbatim>\<open>{status, data, error}\<close>.\<close>

record 'v async_state =
  status :: string
  data :: "'v jsval"
  error :: "'v jsval"

subsection \<open>\<open>useSafeDispatch\<close>\<close>

text \<open>
  \<^verbatim>\<open>const mountedRef = React.useRef(false)\<close>: the world of a component that calls
  \<^verbatim>\<open>useSafeDispatch\<close> holds the ref cell; whatever else it holds is the record's
  extension, which the raw \<^verbatim>\<open>dispatch\<close> may read and change.
\<close>

record safe_dispatch_hook =
  mountedRef :: bool

text \<open>The body of the layout effect, and the cleanup function it returns.\<close>

definition layoutEffect :: "'z safe_dispatch_hook_scheme \<Rightarrow> 'z safe_dispatch_hook_scheme" where
  "layoutEffect w = w\<lparr>mountedRef := True\<rparr>"

definition layoutEffect_cleanup :: "'z safe_dispatch_hook_scheme \<Rightarrow> 'z safe_dispatch_hook_scheme" where
  "layoutEffect_cleanup w = w\<lparr>mountedRef := False\<rparr>"

text \<open>
  The callback returned by \<^verbatim>\<open>useSafeDispatch(dispatch)\<close>:
  \<^verbatim>\<open>(...args) => { if (mountedRef.current) { dispatch(...args) } }\<close>.
  The ref is read when the callback is called.
\<close>

definition useSafeDispatch ::
  "('a \<Rightarrow> 'z safe_dispatch_hook_scheme \<Rightarrow> js_error + 'z safe_dispatch_hook_scheme)
   \<Rightarrow> 'a \<Rightarrow> 'z safe_dispatch_hook_scheme \<Rightarrow> js_error + 'z safe_dispatch_hook_scheme" where
  "useSafeDispatch dispatch args w = (if mountedRef w then dispatch args w else Inr w)"

text \<open>
  A raw dispatch that only records the arguments it is called with, to observe whether
  the wrapped callback invoked it.
\<close>

record 'a call_log = safe_dispatch_hook +
  calls :: "'a list"

definition recordingDispatch :: "'a \<Rightarrow> 'a call_log \<Rightarrow> js_error + 'a call_log" where
  "recordingDispatch args w = Inr (w\<lparr>calls := calls w @ [args]\<rparr>)"

text \<open>A raw dispatch that always throws.\<close>

definition throwingDispatch :: "'a \<Rightarrow> 'a call_log \<Rightarrow> js_error + 'a call_log" where
  "throwingDispatch args w = Inl (Error ''dispatch failed'')"

subsection \<open>\<open>asyncReducer\<close>\<close>

definition asyncReducer :: "'v async_state \<Rightarrow> 'v action \<Rightarrow> js_error + 'v async_state" where
  "asyncReducer state action =
     (if type action = ''pending'' then
        Inr \<lparr>status = ''pending'', data = Null, error = Null\<rparr>
      else if type action = ''resolved'' then
        Inr \<lparr>status = ''resolved'', data = action.data action, error = Null\<rparr>
      else if type action = ''rejected'' then
        Inr \<lparr>status = ''rejected'', data = Null, error = action.error action\<rparr>
      else
        Inl (Error (''Unhandled action type: '' @ type action)))"

subsection \<open>\<open>useAsync\<close>\<close>

text \<open>
  An awaitable handed to \<^verbatim>\<open>run\<close>. The hook treats it opaquely; \<open>pid\<close> is the identity
  of the promise object and \<open>outcome\<close> the value or error it settles with, once, if it
  settles at all.
\<close>

datatype 'v settlement = Fulfilled "'v jsval" | Rejected "'v jsval"

record 'v promise =
  pid :: nat
  outcome :: "'v settlement"

text \<open>
  One instance of \<^verbatim>\<open>useAsync\<close>: the ref of its \<^verbatim>\<open>useSafeDispatch\<close>, the state of its
  \<^verbatim>\<open>useReducer\<close>, and the promises on which \<^verbatim>\<open>run\<close> has registered its two
  continuations and that have not delivered yet, in registration order.
\<close>

record 'v controller = safe_dispatch_hook +
  state :: "'v async_state"
  continuations :: "'v promise list"

text \<open>
  \<^verbatim>\<open>{status: 'idle', data: null, error: null, ...initialState}\<close>: the spread copies
  the properties that \<^verbatim>\<open>initialState\<close> has over the defaults; spreading
  \<^verbatim>\<open>undefined\<close> copies nothing.
\<close>

definition spread_initialState :: "'v initialState option \<Rightarrow> 'v async_state" where
  "spread_initialState initialState =
     (case initialState of
        None \<Rightarrow> \<lparr>status = ''idle'', data = Null, error = Null\<rparr>
      | Some i \<Rightarrow>
          \<lparr>status = (case initialState.status i of None \<Rightarrow> ''idle'' | Some s \<Rightarrow> s),
           data = (case initialState.data i of None \<Rightarrow> Null | Some d \<Rightarrow> d),
           error = (case initialState.error i of None \<Rightarrow> Null | Some e \<Rightarrow> e)\<rparr>)"

text \<open>The world right after the first call of \<^verbatim>\<open>useAsync(initialState)\<close>, before any effect has run.\<close>

definition useAsync :: "'v initialState option \<Rightarrow> 'v controller" where
  "useAsync initialState =
     \<lparr>mountedRef = False, state = spread_initialState initialState, continuations = []\<rparr>"

text \<open>
  \<^verbatim>\<open>unsafeDispatch\<close>, the dispatch function of \<^verbatim>\<open>React.useReducer(asyncReducer, ...)\<close>,
  as it acts on a mounted component: the stored state is replaced by the reducer's
  result; an error thrown by the reducer leaves no new state. React itself drops an
  update of a component that is no longer mounted; \<^verbatim>\<open>useAsync\<close> calls
  \<^verbatim>\<open>unsafeDispatch\<close> only through the guarded \<open>dispatch\<close> below, which reaches it only
  while the ref reads true.
\<close>

definition unsafeDispatch :: "'v action \<Rightarrow> 'v controller \<Rightarrow> js_error + 'v controller" where
  "unsafeDispatch action c =
     (case asyncReducer (state c) action of
        Inl e \<Rightarrow> Inl e
      | Inr s \<Rightarrow> Inr (c\<lparr>state := s\<rparr>))"

text \<open>\<^verbatim>\<open>const dispatch = useSafeDispatch(unsafeDispatch)\<close>.\<close>

definition dispatch :: "'v action \<Rightarrow> 'v controller \<Rightarrow> js_error + 'v controller" where
  "dispatch = useSafeDispatch unsafeDispatch"

text \<open>
  What \<^verbatim>\<open>run\<close> can be called with, as far as its body tells values apart:
  a falsy value (\<^verbatim>\<open>undefined\<close>, \<^verbatim>\<open>null\<close>, \<^verbatim>\<open>false\<close>, \<^verbatim>\<open>0\<close>, the empty string);
  a promise; a truthy value whose \<^verbatim>\<open>then\<close> is not a function (\<^verbatim>\<open>42\<close>, \<^verbatim>\<open>{}\<close>).
  A truthy object with a \<^verbatim>\<open>then\<close> method of its own that is not a promise is left out:
  what happens then is that method's doing.
\<close>

datatype 'v argument = Falsy | Promise "'v promise" | Non_thenable

text \<open>
  \<^verbatim>\<open>run(promise)\<close>. For a falsy argument \<^verbatim>\<open>if (!promise) return\<close> leaves at once.
  Otherwise \<^verbatim>\<open>pending\<close> is dispatched first, then \<^verbatim>\<open>promise.then(...)\<close> is evaluated:
  on a promise it registers the two continuations; on a value without a callable
  \<^verbatim>\<open>then\<close> it throws a \<^verbatim>\<open>TypeError\<close> out of \<^verbatim>\<open>run\<close>. The value \<open>Inl\<close> is the
  error thrown; it does not carry the world in which it is thrown, where \<^verbatim>\<open>pending\<close>
  has already been dispatched.
\<close>

definition run :: "'v argument \<Rightarrow> 'v controller \<Rightarrow> js_error + 'v controller" where
  "run promise c =
     (case promise of
        Falsy \<Rightarrow> Inr c
      | Promise p \<Rightarrow>
          (case dispatch \<lparr>type = ''pending'', data = Undefined, error = Undefined\<rparr> c of
             Inl e \<Rightarrow> Inl e
           | Inr c' \<Rightarrow> Inr (c'\<lparr>continuations := continuations c' @ [p]\<rparr>))
      | Non_thenable \<Rightarrow>
          (case dispatch \<lparr>type = ''pending'', data = Undefined, error = Undefined\<rparr> c of
             Inl e \<Rightarrow> Inl e
           | Inr c' \<Rightarrow> Inl (TypeError ''promise.then is not a function'')))"

text \<open>
  The arguments of a consumer that keeps to the contract of \<^verbatim>\<open>run\<close>, an optional
  awaitable: absent, or a promise.
\<close>

definition optional_awaitable :: "'v promise option \<Rightarrow> 'v argument" where
  "optional_awaitable promise = (case promise of None \<Rightarrow> Falsy | Some p \<Rightarrow> Promise p)"

text \<open>
  The two callbacks given to \<^verbatim>\<open>then\<close>:
  \<^verbatim>\<open>data => { dispatch({type: 'resolved', data}) }\<close> and
  \<^verbatim>\<open>error => { dispatch({type: 'rejected', error}) }\<close>. A promise calls exactly one of
  them, with what it settled with.
\<close>

definition onSettled :: "'v settlement \<Rightarrow> 'v controller \<Rightarrow> js_error + 'v controller" where
  "onSettled s c =
     (case s of
        Fulfilled d \<Rightarrow> dispatch \<lparr>type = ''resolved'', data = d, error = Undefined\<rparr> c
      | Rejected e \<Rightarrow> dispatch \<lparr>type = ''rejected'', data = Undefined, error = e\<rparr> c)"

text \<open>
  Promise \<open>p\<close> settles: every continuation registered on it runs, in registration
  order (one per earlier \<^verbatim>\<open>run(p)\<close>), and is then gone, since a promise settles once.
\<close>

fun deliver :: "'v promise list \<Rightarrow> 'v promise \<Rightarrow> 'v controller \<Rightarrow> js_error + 'v controller" where
  "deliver [] p c = Inr c"
| "deliver (q # qs) p c =
     (if q = p then
        (case onSettled (outcome p) c of
           Inl e \<Rightarrow> Inl e
         | Inr c' \<Rightarrow> deliver qs p c')
      else deliver qs p c)"

definition settle :: "'v promise \<Rightarrow> 'v controller \<Rightarrow> js_error + 'v controller" where
  "settle p c =
     (case deliver (continuations c) p c of
        Inl e \<Rightarrow> Inl e
      | Inr c' \<Rightarrow> Inr (c'\<lparr>continuations := filter (\<lambda>q. q \<noteq> p) (continuations c')\<rparr>))"

subsection \<open>Histories of one controller\<close>

text \<open>
  What can happen to a controller after its construction: React runs the layout effect
  (attach) or its cleanup (detach), the consumer calls \<^verbatim>\<open>run\<close> with an optional
  awaitable, a promise settles.
\<close>

datatype 'v event = Attach | Detach | Run "'v promise option" | Settle "'v promise"

fun step :: "'v event \<Rightarrow> 'v controller \<Rightarrow> js_error + 'v controller" where
  "step Attach c = Inr (layoutEffect c)"
| "step Detach c = Inr (layoutEffect_cleanup c)"
| "step (Run promise) c = run (optional_awaitable promise) c"
| "step (Settle p) c = settle p c"

fun exec :: "'v event list \<Rightarrow> 'v controller \<Rightarrow> js_error + 'v controller" where
  "exec [] c = Inr c"
| "exec (e # es) c =
     (case step e c of
        Inl err \<Rightarrow> Inl err
      | Inr c' \<Rightarrow> exec es c')"

text \<open>The state an operation's settlement leads to when its continuation is delivered.\<close>

definition settled_state :: "'v settlement \<Rightarrow> 'v async_state" where
  "settled_state s =
     (case s of
        Fulfilled d \<Rightarrow> \<lparr>status = ''resolved'', data = d, error = Null\<rparr>
      | Rejected e \<Rightarrow> \<lparr>status = ''rejected'', data = Null, error = e\<rparr>)"

subsection \<open>Two readings of the data/error invariant\<close>

text \<open>
  The invariant as the specification words it: exactly one of \<open>data\<close>/\<open>error\<close> is
  non-null, in the matching status; in \<open>idle\<close> and \<open>pending\<close> both are null.
\<close>

definition exactly_one_non_null_in_matching_status :: "'v async_state \<Rightarrow> bool" where
  "exactly_one_non_null_in_matching_status s =
     (if status s = ''resolved'' then data s \<noteq> Null \<and> error s = Null
      else if status s = ''rejected'' then error s \<noteq> Null \<and> data s = Null
      else (status s = ''idle'' \<or> status s = ''pending'') \<and> data s = Null \<and> error s = Null)"

text \<open>
  The weaker invariant: a non-null \<open>data\<close> only in status \<open>resolved\<close>, a non-null
  \<open>error\<close> only in status \<open>rejected\<close>.
\<close>

definition non_null_only_in_matching_status :: "'v async_state \<Rightarrow> bool" where
  "non_null_only_in_matching_status s =
     ((data s \<noteq> Null \<longrightarrow> status s = ''resolved'') \<and>
      (error s \<noteq> Null \<longrightarrow> status s = ''rejected''))"

section \<open>Properties\<close>

subsection \<open>What each operation computes\<close>

lemma dispatch_unmounted: "\<not> mountedRef c \<Longrightarrow> dispatch a c = Inr c"
  by (simp add: dispatch_def useSafeDispatch_def)

lemma run_Falsy: "run Falsy c = Inr c"
  by (simp add: run_def)

lemma run_Promise:
  "run (Promise p) c =
     Inr ((if mountedRef c then c\<lparr>state := \<lparr>status = ''pending'', data = Null, error = Null\<rparr>\<rparr> else c)
          \<lparr>continuations := continuations c @ [p]\<rparr>)"
  by (simp add: run_def dispatch_def useSafeDispatch_def unsafeDispatch_def asyncReducer_def)

lemma onSettled_eq:
  "onSettled s c = Inr (if mountedRef c then c\<lparr>state := settled_state s\<rparr> else c)"
  by (cases s)
     (simp_all add: onSettled_def settled_state_def dispatch_def useSafeDispatch_def
        unsafeDispatch_def asyncReducer_def)

text \<open>
  However many continuations are registered on \<open>p\<close>, their delivery is one state
  replacement when the controller is mounted and nothing otherwise.
\<close>

lemma deliver_eq:
  "deliver qs p c =
     Inr (if mountedRef c \<and> p \<in> set qs then c\<lparr>state := settled_state (outcome p)\<rparr> else c)"
proof (induction qs arbitrary: c)
  case Nil
  show ?case by simp
next
  case (Cons q qs)
  show ?case
  proof (cases "q = p")
    case True
    then show ?thesis by (simp add: onSettled_eq Cons.IH)
  next
    case False
    then show ?thesis by (simp add: Cons.IH)
  qed
qed

lemma settle_eq:
  "settle p c =
     Inr ((if mountedRef c \<and> p \<in> set (continuations c)
           then c\<lparr>state := settled_state (outcome p)\<rparr> else c)
          \<lparr>continuations := filter (\<lambda>q. q \<noteq> p) (continuations c)\<rparr>)"
  by (simp add: settle_def deliver_eq)

subsection \<open>No history throws\<close>

lemma step_total: "\<exists>c'. step e c = Inr c'"
proof (cases e)
  case (Run promise)
  then show ?thesis by (cases promise) (simp_all add: optional_awaitable_def run_Falsy run_Promise)
next
  case (Settle p)
  then show ?thesis by (simp add: settle_eq)
qed simp_all

lemma exec_total: "\<exists>c'. exec evs c = Inr c'"
proof (induction evs arbitrary: c)
  case Nil
  show ?case by simp
next
  case (Cons e evs)
  obtain c1 where "step e c = Inr c1" using step_total by blast
  then show ?case using Cons.IH [of c1] by simp
qed

subsection \<open>An unmounted controller keeps its state\<close>

lemma step_unmounted:
  assumes "\<not> mountedRef c" and "e \<noteq> Attach"
  shows "\<exists>c'. step e c = Inr c' \<and> state c' = state c \<and> \<not> mountedRef c'"
proof (cases e)
  case Attach
  with assms show ?thesis by simp
next
  case Detach
  with assms show ?thesis by (simp add: layoutEffect_cleanup_def)
next
  case (Run promise)
  with assms show ?thesis by (cases promise) (simp_all add: optional_awaitable_def run_Falsy run_Promise)
next
  case (Settle p)
  with assms show ?thesis by (simp add: settle_eq)
qed

lemma exec_unmounted:
  assumes "\<not> mountedRef c" and "Attach \<notin> set evs"
  shows "\<exists>c'. exec evs c = Inr c' \<and> state c' = state c \<and> \<not> mountedRef c'"
  using assms
proof (induction evs arbitrary: c)
  case Nil
  then show ?case by simp
next
  case (Cons e evs)
  from Cons.prems have "e \<noteq> Attach" and rest: "Attach \<notin> set evs" by auto
  with Cons.prems(1) obtain c1 where
    c1: "step e c = Inr c1" "state c1 = state c" "\<not> mountedRef c1"
    using step_unmounted by blast
  from Cons.IH [OF c1(3) rest] c1 show ?case by simp
qed

subsection \<open>The weaker invariant is kept by every step\<close>

lemma asyncReducer_invariant:
  "asyncReducer s a = Inr s' \<Longrightarrow> non_null_only_in_matching_status s'"
  by (auto simp: asyncReducer_def non_null_only_in_matching_status_def split: if_splits)

lemma settled_state_invariant: "non_null_only_in_matching_status (settled_state x)"
  by (cases x) (simp_all add: settled_state_def non_null_only_in_matching_status_def)

lemma step_invariant:
  assumes "non_null_only_in_matching_status (state c)" and "step e c = Inr c'"
  shows "non_null_only_in_matching_status (state c')"
proof (cases e)
  case Attach
  with assms show ?thesis by (auto simp: layoutEffect_def)
next
  case Detach
  with assms show ?thesis by (auto simp: layoutEffect_cleanup_def)
next
  case (Run promise)
  with assms show ?thesis
    by (cases promise)
       (auto simp: optional_awaitable_def run_Falsy run_Promise
          non_null_only_in_matching_status_def split: if_splits)
next
  case (Settle p)
  with assms show ?thesis
    by (auto simp: settle_eq settled_state_invariant split: if_splits)
qed

lemma exec_invariant:
  assumes "non_null_only_in_matching_status (state c)" and "exec evs c = Inr c'"
  shows "non_null_only_in_matching_status (state c')"
  using assms
proof (induction evs arbitrary: c)
  case Nil
  then show ?case by simp
next
  case (Cons e evs)
  obtain c1 where c1: "step e c = Inr c1" using step_total by blast
  with Cons.prems(1) have "non_null_only_in_matching_status (state c1)"
    by (rule step_invariant)
  moreover from Cons.prems(2) c1 have "exec evs c1 = Inr c'" by simp
  ultimately show ?case by (rule Cons.IH)
qed

subsection \<open>The reducer does not read the current state\<close>

lemma asyncReducer_state_independent: "asyncReducer s a = asyncReducer s' a"
  by (simp add: asyncReducer_def)

subsection \<open>Claims about the guard and the wrapped dispatcher\<close>

text \<open>
  C1. If the controller is detached before an operation in flight settles, the stored
  state after the settlement is the state at the moment of detachment. The layout
  effect has an empty dependency list, so React runs it once per mount and never after
  the cleanup: a history after the detachment holds no attach. Whatever else happens
  then (settlements, further calls of \<open>run\<close>, a second detach), no step throws, the
  state stays what it was when the cleanup ran, and the guard stays false.
\<close>

theorem suppression_after_detach:
  assumes "Attach \<notin> set evs"
  shows "\<exists>c'. exec (Detach # evs) c = Inr c' \<and> state c' = state c \<and> \<not> mountedRef c'"
proof -
  have "\<not> mountedRef (layoutEffect_cleanup c)"
    by (simp add: layoutEffect_cleanup_def)
  from exec_unmounted [OF this assms]
  show ?thesis by (simp add: layoutEffect_cleanup_def)
qed

text \<open>
  A mounted controller is \<open>pending\<close> on a promise that will fulfil with a value; it is
  detached, then the promise settles: the state is still \<open>pending\<close>.
\<close>

theorem suppression_after_detach_witness:
  "Attach \<notin> set [Settle \<lparr>pid = 1, outcome = Fulfilled (Value ''pikachu'')\<rparr>] \<and>
   (\<exists>c'. exec [Detach, Settle \<lparr>pid = 1, outcome = Fulfilled (Value ''pikachu'')\<rparr>]
            \<lparr>mountedRef = True,
             state = \<lparr>status = ''pending'', data = Null, error = Null\<rparr>,
             continuations = [\<lparr>pid = 1, outcome = Fulfilled (Value ''pikachu'')\<rparr>]\<rparr> = Inr c' \<and>
          state c' = \<lparr>status = ''pending'', data = Null, error = Null\<rparr> \<and>
          \<not> mountedRef c')"
  using suppression_after_detach
    [of "[Settle \<lparr>pid = 1, outcome = Fulfilled (Value ''pikachu'')\<rparr>]"
        "\<lparr>mountedRef = True,
          state = \<lparr>status = ''pending'', data = Null, error = Null\<rparr>,
          continuations = [\<lparr>pid = 1, outcome = Fulfilled (Value ''pikachu'')\<rparr>]\<rparr>"]
  by simp

text \<open>
  C2. For every raw dispatch \<open>D\<close>, every argument and every world, the wrapped callback
  does what \<open>D\<close> does when the ref reads true at the call, and otherwise returns
  normally with the world untouched. With a raw dispatch that records its calls, the
  argument is recorded if and only if the ref reads true; with one that always throws,
  the wrapped callback still returns normally when the ref reads false.
\<close>

theorem safe_dispatch_iff_alive:
  "(mountedRef w \<longrightarrow> useSafeDispatch D a w = D a w) \<and>
   (\<not> mountedRef w \<longrightarrow> useSafeDispatch D a w = Inr w) \<and>
   ((\<exists>v'. useSafeDispatch recordingDispatch b v = Inr v' \<and> calls v' = calls v @ [b])
      \<longleftrightarrow> mountedRef v) \<and>
   (\<not> mountedRef v \<longrightarrow> useSafeDispatch throwingDispatch b v = Inr v)"
  by (simp add: useSafeDispatch_def recordingDispatch_def)

theorem safe_dispatch_iff_alive_witness:
  "useSafeDispatch recordingDispatch ''x'' \<lparr>mountedRef = True, calls = []\<rparr>
     = Inr \<lparr>mountedRef = True, calls = [''x'']\<rparr> \<and>
   useSafeDispatch recordingDispatch ''x'' \<lparr>mountedRef = False, calls = []\<rparr>
     = Inr \<lparr>mountedRef = False, calls = []\<rparr> \<and>
   useSafeDispatch throwingDispatch ''x'' \<lparr>mountedRef = False, calls = []\<rparr>
     = Inr \<lparr>mountedRef = False, calls = []\<rparr>"
  using safe_dispatch_iff_alive
    [of "\<lparr>mountedRef = True, calls = []\<rparr>" recordingDispatch "''x''"
        "''x''" "\<lparr>mountedRef = False, calls = []\<rparr>"]
    safe_dispatch_iff_alive
    [of "\<lparr>mountedRef = False, calls = []\<rparr>" recordingDispatch "''x''"
        "''x''" "\<lparr>mountedRef = False, calls = []\<rparr>"]
  by (simp add: recordingDispatch_def)

subsection \<open>Claims about the reducer\<close>

text \<open>
  C3. From every current state, the reducer maps \<open>pending\<close> to
  \<open>{status: pending, data: null, error: null}\<close>, \<open>resolved\<close> with \<open>data\<close> to
  \<open>{status: resolved, data, error: null}\<close>, and \<open>rejected\<close> with \<open>error\<close> to
  \<open>{status: rejected, data: null, error}\<close>. The current state \<open>s\<close> is arbitrary, and
  so are the properties of the action that the branch does not read.
\<close>

theorem asyncReducer_transitions:
  "asyncReducer s \<lparr>type = ''pending'', data = d, error = e\<rparr>
     = Inr \<lparr>status = ''pending'', data = Null, error = Null\<rparr> \<and>
   asyncReducer s \<lparr>type = ''resolved'', data = d, error = e\<rparr>
     = Inr \<lparr>status = ''resolved'', data = d, error = Null\<rparr> \<and>
   asyncReducer s \<lparr>type = ''rejected'', data = d, error = e\<rparr>
     = Inr \<lparr>status = ''rejected'', data = Null, error = e\<rparr>"
  by (simp add: asyncReducer_def)

text \<open>
  C9. An action whose \<open>type\<close> is none of \<open>pending\<close>, \<open>resolved\<close>, \<open>rejected\<close> makes
  the reducer throw an \<open>Error\<close> whose message names the type; no state is returned,
  and the raw dispatch stores none.
\<close>

theorem unhandled_action_throws:
  assumes "type a \<noteq> ''pending''" and "type a \<noteq> ''resolved''" and "type a \<noteq> ''rejected''"
  shows "asyncReducer s a = Inl (Error (''Unhandled action type: '' @ type a)) \<and>
         unsafeDispatch a c = Inl (Error (''Unhandled action type: '' @ type a))"
  using assms
  by (simp add: asyncReducer_def unsafeDispatch_def)

theorem unhandled_action_throws_witness:
  "asyncReducer \<lparr>status = ''idle'', data = Null, error = (Null :: string jsval)\<rparr>
       \<lparr>type = ''reset'', data = Undefined, error = Undefined\<rparr>
     = Inl (Error ''Unhandled action type: reset'') \<and>
   unsafeDispatch \<lparr>type = ''reset'', data = Undefined, error = Undefined\<rparr>
       (useAsync None :: string controller)
     = Inl (Error ''Unhandled action type: reset'')"
  using unhandled_action_throws
    [of "\<lparr>type = ''reset'', data = Undefined, error = Undefined\<rparr>"
        "\<lparr>status = ''idle'', data = Null, error = (Null :: string jsval)\<rparr>"
        "useAsync None :: string controller"]
  by simp

text \<open>
  C5. The reducer's result does not depend on the current state, so two transitions in
  sequence give what the second alone gives. On a mounted controller, when \<open>run\<close> is
  called with \<open>p1\<close> and then with \<open>p2\<close>, and \<open>p2\<close> settles before \<open>p1\<close>, the final
  state is the one of \<open>p1\<close>'s settlement, for any two promises and any earlier state
  and registrations.
\<close>

theorem last_delivered_wins:
  "asyncReducer s a1 = asyncReducer s' a1 \<and>
   (asyncReducer s a1 = Inr s1 \<longrightarrow> asyncReducer s1 a2 = asyncReducer s a2) \<and>
   (mountedRef c \<longrightarrow>
      (\<exists>c'. exec [Run (Some p1), Run (Some p2), Settle p2, Settle p1] c = Inr c' \<and>
            state c' = settled_state (outcome p1)))"
proof -
  have "mountedRef c \<Longrightarrow>
      \<exists>c'. exec [Run (Some p1), Run (Some p2), Settle p2, Settle p1] c = Inr c' \<and>
           state c' = settled_state (outcome p1)"
    by (cases "p1 = p2") (simp_all add: optional_awaitable_def run_Promise settle_eq)
  then show ?thesis
    using asyncReducer_state_independent by blast
qed

theorem last_delivered_wins_witness:
  "asyncReducer \<lparr>status = ''idle'', data = Null, error = Null\<rparr>
       \<lparr>type = ''rejected'', data = Undefined, error = Value ''boom''\<rparr>
     = Inr \<lparr>status = ''rejected'', data = Null, error = Value ''boom''\<rparr> \<and>
   asyncReducer \<lparr>status = ''rejected'', data = Null, error = Value ''boom''\<rparr>
       \<lparr>type = ''resolved'', data = Value ''pikachu'', error = Undefined\<rparr>
     = asyncReducer \<lparr>status = ''idle'', data = Null, error = Null\<rparr>
       \<lparr>type = ''resolved'', data = Value ''pikachu'', error = Undefined\<rparr> \<and>
   mountedRef (layoutEffect (useAsync None :: string controller)) \<and>
   (\<exists>c'. exec [Run (Some \<lparr>pid = 1, outcome = Fulfilled (Value ''pikachu'')\<rparr>),
               Run (Some \<lparr>pid = 2, outcome = Fulfilled (Value ''mew'')\<rparr>),
               Settle \<lparr>pid = 2, outcome = Fulfilled (Value ''mew'')\<rparr>,
               Settle \<lparr>pid = 1, outcome = Fulfilled (Value ''pikachu'')\<rparr>]
              (layoutEffect (useAsync None)) = Inr c' \<and>
         state c' = \<lparr>status = ''resolved'', data = Value ''pikachu'', error = Null\<rparr>)"
  using last_delivered_wins
    [of "\<lparr>status = ''idle'', data = Null, error = Null\<rparr>"
        "\<lparr>type = ''rejected'', data = Undefined, error = Value ''boom''\<rparr>"
        "\<lparr>status = ''idle'', data = Null, error = Null\<rparr>"
        "\<lparr>status = ''rejected'', data = Null, error = Value ''boom''\<rparr>"
        "\<lparr>type = ''resolved'', data = Value ''pikachu'', error = Undefined\<rparr>"
        "layoutEffect (useAsync None)"
        "\<lparr>pid = 1, outcome = Fulfilled (Value ''pikachu'')\<rparr>"
        "\<lparr>pid = 2, outcome = Fulfilled (Value ''mew'')\<rparr>"]
  by (simp add: asyncReducer_def layoutEffect_def settled_state_def)

text \<open>
  C4, as the specification states it, fails. A controller constructed with an override
  that supplies \<open>data\<close> starts \<open>idle\<close> with a non-null \<open>data\<close>; an operation that
  fulfils with \<open>null\<close> leads to \<open>resolved\<close> with \<open>data\<close> and \<open>error\<close> both null.
\<close>

theorem exactly_one_non_null_counterexample:
  "\<not> exactly_one_non_null_in_matching_status
       (state (useAsync (Some \<lparr>initialState.status = None,
                                initialState.data = Some (Value ''pikachu''),
                                initialState.error = None\<rparr>))) \<and>
   asyncReducer \<lparr>status = ''pending'', data = Null, error = Null\<rparr>
       \<lparr>type = ''resolved'', data = (Null :: string jsval), error = Undefined\<rparr>
     = Inr \<lparr>status = ''resolved'', data = Null, error = Null\<rparr> \<and>
   \<not> exactly_one_non_null_in_matching_status
       \<lparr>status = ''resolved'', data = (Null :: string jsval), error = Null\<rparr>"
  by (simp add: exactly_one_non_null_in_matching_status_def useAsync_def
        spread_initialState_def asyncReducer_def)

text \<open>
  C4, amended. Every state the reducer returns has a non-null \<open>data\<close> only in status
  \<open>resolved\<close> and a non-null \<open>error\<close> only in status \<open>rejected\<close>. So has the default
  initial state, and so has every state a controller holds along any history, provided
  its initial state has \<open>data\<close> and \<open>error\<close> null (no override, or one that supplies
  neither): then at most one of the two is non-null, and in \<open>idle\<close> and \<open>pending\<close>
  both are null.
\<close>

theorem held_states_invariant:
  "(asyncReducer s a = Inr (s' :: 'v async_state) \<longrightarrow> non_null_only_in_matching_status s') \<and>
   non_null_only_in_matching_status (state (useAsync None :: 'v controller)) \<and>
   (data (spread_initialState i) = Null \<and> error (spread_initialState i) = Null \<and>
    exec evs (useAsync i) = Inr (c :: 'v controller) \<longrightarrow>
      non_null_only_in_matching_status (state c) \<and>
      (data (state c) = Null \<or> error (state c) = Null) \<and>
      (status (state c) = ''idle'' \<or> status (state c) = ''pending'' \<longrightarrow>
         data (state c) = Null \<and> error (state c) = Null))"
proof -
  have reducer: "asyncReducer s a = Inr s' \<longrightarrow> non_null_only_in_matching_status s'"
    using asyncReducer_invariant by blast
  have initial: "non_null_only_in_matching_status (state (useAsync None :: 'v controller))"
    by (simp add: useAsync_def spread_initialState_def non_null_only_in_matching_status_def)
  have reachable:
    "non_null_only_in_matching_status (state c) \<and>
     (data (state c) = Null \<or> error (state c) = Null) \<and>
     (status (state c) = ''idle'' \<or> status (state c) = ''pending'' \<longrightarrow>
        data (state c) = Null \<and> error (state c) = Null)"
    if h: "data (spread_initialState i) = Null \<and> error (spread_initialState i) = Null \<and>
           exec evs (useAsync i) = Inr c"
  proof -
    from h have "non_null_only_in_matching_status (state (useAsync i))"
      by (simp add: useAsync_def non_null_only_in_matching_status_def)
    with h have inv: "non_null_only_in_matching_status (state c)"
      using exec_invariant by blast
    then show ?thesis
      by (auto simp: non_null_only_in_matching_status_def)
  qed
  from reducer initial reachable show ?thesis by blast
qed

theorem held_states_invariant_witness:
  "asyncReducer \<lparr>status = ''idle'', data = Null, error = Null\<rparr>
       \<lparr>type = ''resolved'', data = Value ''pikachu'', error = Undefined\<rparr>
     = Inr \<lparr>status = ''resolved'', data = Value ''pikachu'', error = Null\<rparr> \<and>
   non_null_only_in_matching_status
     \<lparr>status = ''resolved'', data = Value ''pikachu'', error = Null\<rparr> \<and>
   data (spread_initialState (Some \<lparr>initialState.status = Some ''pending'', initialState.data = None,
            initialState.error = None\<rparr>))
     = (Null :: string jsval) \<and>
   error (spread_initialState (Some \<lparr>initialState.status = Some ''pending'', initialState.data = None,
            initialState.error = None\<rparr>))
     = (Null :: string jsval) \<and>
   exec [Attach, Run (Some \<lparr>pid = 1, outcome = Rejected (Value ''boom'')\<rparr>),
         Settle \<lparr>pid = 1, outcome = Rejected (Value ''boom'')\<rparr>]
        (useAsync (Some \<lparr>initialState.status = Some ''pending'', initialState.data = None,
            initialState.error = None\<rparr>))
     = Inr \<lparr>mountedRef = True,
            state = \<lparr>status = ''rejected'', data = Null, error = Value ''boom''\<rparr>,
            continuations = []\<rparr> \<and>
   non_null_only_in_matching_status
     \<lparr>status = ''rejected'', data = Null, error = Value ''boom''\<rparr> \<and>
   exec [Attach, Run (Some \<lparr>pid = 1, outcome = Rejected (Value ''boom'')\<rparr>)] (useAsync None)
     = Inr \<lparr>mountedRef = True,
            state = \<lparr>status = ''pending'', data = Null, error = Null\<rparr>,
            continuations = [\<lparr>pid = 1, outcome = Rejected (Value ''boom'')\<rparr>]\<rparr> \<and>
   non_null_only_in_matching_status
     \<lparr>status = ''pending'', data = (Null :: string jsval), error = Null\<rparr>"
  using held_states_invariant
    [of "\<lparr>status = ''idle'', data = Null, error = Null\<rparr>"
        "\<lparr>type = ''resolved'', data = Value ''pikachu'', error = Undefined\<rparr>"
        "\<lparr>status = ''resolved'', data = Value ''pikachu'', error = Null\<rparr>"
        "Some \<lparr>initialState.status = Some ''pending'', initialState.data = None,
           initialState.error = None\<rparr>"
        "[Attach, Run (Some \<lparr>pid = 1, outcome = Rejected (Value ''boom'')\<rparr>),
          Settle \<lparr>pid = 1, outcome = Rejected (Value ''boom'')\<rparr>]"
        "\<lparr>mountedRef = True,
          state = \<lparr>status = ''rejected'', data = Null, error = Value ''boom''\<rparr>,
          continuations = []\<rparr>"]
    held_states_invariant
    [of "\<lparr>status = ''idle'', data = Null, error = Null\<rparr>"
        "\<lparr>type = ''resolved'', data = Value ''pikachu'', error = Undefined\<rparr>"
        "\<lparr>status = ''resolved'', data = Value ''pikachu'', error = Null\<rparr>"
        None
        "[Attach, Run (Some \<lparr>pid = 1, outcome = Rejected (Value ''boom'')\<rparr>)]"
        "\<lparr>mountedRef = True,
          state = \<lparr>status = ''pending'', data = Null, error = Null\<rparr>,
          continuations = [\<lparr>pid = 1, outcome = Rejected (Value ''boom'')\<rparr>]\<rparr>"]
  by (simp add: asyncReducer_def spread_initialState_def useAsync_def layoutEffect_def
        optional_awaitable_def run_Promise settle_eq settled_state_def)

subsection \<open>Claims about the controller\<close>

text \<open>
  C6, as stated for every input, fails: called with a truthy value that has no callable
  \<^verbatim>\<open>then\<close>, such as \<^verbatim>\<open>run(42)\<close>, \<open>run\<close> dispatches \<open>pending\<close> and then throws a
  \<^verbatim>\<open>TypeError\<close> synchronously, on a mounted controller and on an unmounted one.
\<close>

theorem run_non_thenable_counterexample:
  "dispatch \<lparr>type = ''pending'', data = Undefined, error = Undefined\<rparr>
       (layoutEffect (useAsync None :: string controller))
     = Inr \<lparr>mountedRef = True,
            state = \<lparr>status = ''pending'', data = Null, error = Null\<rparr>,
            continuations = []\<rparr> \<and>
   run Non_thenable (layoutEffect (useAsync None :: string controller))
     = Inl (TypeError ''promise.then is not a function'') \<and>
   run Non_thenable (useAsync None :: string controller)
     = Inl (TypeError ''promise.then is not a function'')"
  by (simp add: run_def dispatch_def useSafeDispatch_def unsafeDispatch_def asyncReducer_def
        layoutEffect_def useAsync_def spread_initialState_def)

text \<open>
  C6, amended. For every argument that is absent or a promise, and every controller,
  \<open>run\<close> returns normally. With an absent argument it changes nothing. With a promise
  \<open>p\<close> it dispatches \<open>pending\<close> through the guarded dispatch, so the state becomes
  \<open>{status: pending, data: null, error: null}\<close> on a mounted controller and stays as it
  was on an unmounted one, and it registers the continuations on \<open>p\<close>, after those
  already registered; nothing else changes. No history of attach, detach, such calls of
  \<open>run\<close> and settlements throws. A rejection of the operation is not thrown: on a
  mounted controller, \<open>run\<close> on a promise that rejects with \<open>e\<close>, followed by its
  settlement, ends in \<open>{status: rejected, data: null, error: e}\<close>.
\<close>

theorem run_optional_awaitable_returns:
  "(\<exists>c'. run (optional_awaitable promise) c = Inr c') \<and>
   run Falsy c = Inr c \<and>
   (\<exists>c1. dispatch \<lparr>type = ''pending'', data = Undefined, error = Undefined\<rparr> c = Inr c1 \<and>
         run (Promise p) c = Inr (c1\<lparr>continuations := continuations c1 @ [p]\<rparr>)) \<and>
   (mountedRef c \<longrightarrow>
      run (Promise p) c =
        Inr (c\<lparr>state := \<lparr>status = ''pending'', data = Null, error = Null\<rparr>,
                continuations := continuations c @ [p]\<rparr>)) \<and>
   (\<not> mountedRef c \<longrightarrow>
      run (Promise p) c = Inr (c\<lparr>continuations := continuations c @ [p]\<rparr>)) \<and>
   (\<exists>c'. exec evs c = Inr c') \<and>
   (mountedRef c \<longrightarrow>
      (\<exists>c'. exec [Run (Some \<lparr>pid = n, outcome = Rejected e\<rparr>),
                  Settle \<lparr>pid = n, outcome = Rejected e\<rparr>] c = Inr c' \<and>
            state c' = \<lparr>status = ''rejected'', data = Null, error = e\<rparr>))"
proof -
  have returns: "\<exists>c'. run (optional_awaitable promise) c = Inr c'"
    by (cases promise) (simp_all add: optional_awaitable_def run_Falsy run_Promise)
  have absent: "run Falsy c = Inr c"
    by (rule run_Falsy)
  have pending:
    "\<exists>c1. dispatch \<lparr>type = ''pending'', data = Undefined, error = Undefined\<rparr> c = Inr c1 \<and>
          run (Promise p) c = Inr (c1\<lparr>continuations := continuations c1 @ [p]\<rparr>)"
    by (simp add: run_def dispatch_def useSafeDispatch_def unsafeDispatch_def asyncReducer_def)
  have mounted:
    "run (Promise p) c =
       Inr (c\<lparr>state := \<lparr>status = ''pending'', data = Null, error = Null\<rparr>,
               continuations := continuations c @ [p]\<rparr>)" if "mountedRef c"
    using that by (simp add: run_Promise)
  have unmounted:
    "run (Promise p) c = Inr (c\<lparr>continuations := continuations c @ [p]\<rparr>)"
    if "\<not> mountedRef c"
    using that by (simp add: run_Promise)
  have total: "\<exists>c'. exec evs c = Inr c'"
    by (rule exec_total)
  have rejected:
    "\<exists>c'. exec [Run (Some \<lparr>pid = n, outcome = Rejected e\<rparr>),
                Settle \<lparr>pid = n, outcome = Rejected e\<rparr>] c = Inr c' \<and>
          state c' = \<lparr>status = ''rejected'', data = Null, error = e\<rparr>" if "mountedRef c"
    using that by (simp add: optional_awaitable_def run_Promise settle_eq settled_state_def)
  from returns absent pending mounted unmounted total rejected show ?thesis
    by blast
qed

text \<open>
  On a mounted controller in its default state, \<open>run\<close> on a promise makes the state
  \<open>pending\<close> and registers it, and the promise's rejection with \<open>boom\<close> then ends in
  \<open>rejected\<close>; on the controller before its attachment, \<open>run\<close> only registers.
\<close>

theorem run_optional_awaitable_returns_witness:
  "mountedRef (layoutEffect (useAsync None :: string controller)) \<and>
   run (Promise \<lparr>pid = 1, outcome = Rejected (Value ''boom'')\<rparr>)
       (layoutEffect (useAsync None))
     = Inr \<lparr>mountedRef = True,
            state = \<lparr>status = ''pending'', data = Null, error = Null\<rparr>,
            continuations = [\<lparr>pid = 1, outcome = Rejected (Value ''boom'')\<rparr>]\<rparr> \<and>
   (\<exists>c'. exec [Run (Some \<lparr>pid = 1, outcome = Rejected (Value ''boom'')\<rparr>),
               Settle \<lparr>pid = 1, outcome = Rejected (Value ''boom'')\<rparr>]
              (layoutEffect (useAsync None)) = Inr c' \<and>
         state c' = \<lparr>status = ''rejected'', data = Null, error = Value ''boom''\<rparr>) \<and>
   \<not> mountedRef (useAsync None :: string controller) \<and>
   run (Promise \<lparr>pid = 1, outcome = Rejected (Value ''boom'')\<rparr>) (useAsync None)
     = Inr \<lparr>mountedRef = False,
            state = \<lparr>status = ''idle'', data = Null, error = Null\<rparr>,
            continuations = [\<lparr>pid = 1, outcome = Rejected (Value ''boom'')\<rparr>]\<rparr>"
  using run_optional_awaitable_returns
    [of "Some \<lparr>pid = 1, outcome = Rejected (Value ''boom'')\<rparr>"
        "layoutEffect (useAsync None)"
        "\<lparr>pid = 1, outcome = Rejected (Value ''boom'')\<rparr>" "[]" 1 "Value ''boom''"]
    run_optional_awaitable_returns
    [of "Some \<lparr>pid = 1, outcome = Rejected (Value ''boom'')\<rparr>"
        "useAsync None"
        "\<lparr>pid = 1, outcome = Rejected (Value ''boom'')\<rparr>" "[]" 1 "Value ''boom''"]
  by (simp add: layoutEffect_def useAsync_def spread_initialState_def)

text \<open>
  C7. \<open>run\<close> with an absent operation (any falsy argument) returns normally and leaves
  the whole controller, its state included, as it was.
\<close>

theorem run_absent_is_noop:
  "run Falsy c = Inr c \<and> run (optional_awaitable None) c = Inr c \<and>
   exec [Run None] c = Inr c"
  by (simp add: optional_awaitable_def run_Falsy)

text \<open>
  C8. Constructed with no argument, or with an override that supplies nothing, the
  controller's state is \<open>{status: idle, data: null, error: null}\<close>. An override
  replaces exactly the fields it supplies: each field of the initial state is the
  override's when it has one and the default otherwise, so an override of \<open>status\<close>
  alone starts the controller in \<open>pending\<close> with \<open>data\<close> and \<open>error\<close> null.
\<close>

theorem initial_state:
  "state (useAsync None) = \<lparr>status = ''idle'', data = Null, error = Null\<rparr> \<and>
   state (useAsync (Some \<lparr>initialState.status = None, initialState.data = None,
                          initialState.error = None\<rparr>))
     = \<lparr>status = ''idle'', data = Null, error = Null\<rparr> \<and>
   state (useAsync (Some \<lparr>initialState.status = Some ''pending'', initialState.data = None,
                          initialState.error = None\<rparr>))
     = \<lparr>status = ''pending'', data = Null, error = Null\<rparr> \<and>
   status (state (useAsync (Some i)))
     = (case initialState.status i of None \<Rightarrow> ''idle'' | Some s \<Rightarrow> s) \<and>
   data (state (useAsync (Some i)))
     = (case initialState.data i of None \<Rightarrow> Null | Some d \<Rightarrow> d) \<and>
   error (state (useAsync (Some i)))
     = (case initialState.error i of None \<Rightarrow> Null | Some e \<Rightarrow> e)"
  by (simp add: useAsync_def spread_initialState_def)

text \<open>
  C10. At construction the ref is false, for every initial-state override, so every
  dispatch through the wrapped callback (whatever the raw dispatch and the action)
  returns normally and changes nothing; the layout effect makes the ref true. Along any
  history in which the layout effect has not run, the ref stays false and the state
  stays the initial one.
\<close>

theorem guard_false_until_attach:
  "\<not> mountedRef (useAsync i) \<and>
   useSafeDispatch D a (useAsync i) = Inr (useAsync i) \<and>
   dispatch b (useAsync i) = Inr (useAsync i) \<and>
   mountedRef (layoutEffect (useAsync i)) \<and>
   (Attach \<notin> set evs \<longrightarrow>
      (\<exists>c'. exec evs (useAsync i) = Inr c' \<and> state c' = state (useAsync i) \<and>
            \<not> mountedRef c'))"
proof -
  have unmounted: "\<not> mountedRef (useAsync i)"
    by (simp add: useAsync_def)
  then have "useSafeDispatch D a (useAsync i) = Inr (useAsync i)"
    by (simp add: useSafeDispatch_def)
  moreover from unmounted have "dispatch b (useAsync i) = Inr (useAsync i)"
    by (rule dispatch_unmounted)
  moreover have "mountedRef (layoutEffect (useAsync i))"
    by (simp add: layoutEffect_def)
  moreover have "\<exists>c'. exec evs (useAsync i) = Inr c' \<and> state c' = state (useAsync i) \<and>
            \<not> mountedRef c'" if "Attach \<notin> set evs"
    using unmounted that by (rule exec_unmounted)
  ultimately show ?thesis using unmounted by blast
qed

theorem guard_false_until_attach_witness:
  "Attach \<notin> set [Run (Some \<lparr>pid = 1, outcome = Fulfilled (Value ''pikachu'')\<rparr>),
                   Settle \<lparr>pid = 1, outcome = Fulfilled (Value ''pikachu'')\<rparr>] \<and>
   (\<exists>c'. exec [Run (Some \<lparr>pid = 1, outcome = Fulfilled (Value ''pikachu'')\<rparr>),
               Settle \<lparr>pid = 1, outcome = Fulfilled (Value ''pikachu'')\<rparr>]
              (useAsync None) = Inr c' \<and>
         state c' = \<lparr>status = ''idle'', data = Null, error = Null\<rparr> \<and>
         \<not> mountedRef c')"
  using guard_false_until_attach
    [of None unsafeDispatch
        "\<lparr>type = ''pending'', data = Undefined, error = Undefined\<rparr>"
        "\<lparr>type = ''pending'', data = Undefined, error = Undefined\<rparr>"
        "[Run (Some \<lparr>pid = 1, outcome = Fulfilled (Value ''pikachu'')\<rparr>),
                Settle \<lparr>pid = 1, outcome = Fulfilled (Value ''pikachu'')\<rparr>]"]
  by (simp add: useAsync_def spread_initialState_def)

end
